theory Spec2Isabelle
  imports Main "HOL-Library.Word"
begin

section \<open>Python values, errors and strings\<close>

text \<open>
  The exceptions the modelled code can raise. \<open>InvalidType\<close> is
  \<open>rucio.common.exception.InvalidType\<close>; the others are Python's built-in exceptions,
  raised by \<open>uuid.UUID\<close> or by an attribute lookup on an object that lacks the attribute.
\<close>

datatype error = ValueError | TypeError | AttributeError | AssertionError | InvalidType

type_synonym byte = "8 word"

text \<open>
  Text is a list of 8-bit characters. \<open>str.lower()\<close>: the letters \<open>A\<close> to \<open>Z\<close> go
  to \<open>a\<close> to \<open>z\<close>, every other character stays (the case mapping of ASCII).
\<close>

definition lower_char :: "char \<Rightarrow> char" where
  "lower_char c =
     (let n = (of_char c :: nat) in if 65 \<le> n \<and> n \<le> 90 then char_of (n + 32) else c)"

definition str_lower :: "string \<Rightarrow> string" where
  "str_lower s = map lower_char s"

text \<open>
  \<open>s.replace(old, new)\<close>: the occurrences of \<open>old\<close> are replaced from the left, without
  overlap. With an empty \<open>old\<close> Python puts \<open>new\<close> before every character and at the end.
\<close>

fun str_replace :: "string \<Rightarrow> string \<Rightarrow> string \<Rightarrow> string" where
  "str_replace old new s =
     (if old = [] then new @ concat (map (\<lambda>c. c # new) s)
      else if s = [] then []
      else if take (length old) s = old
        then new @ str_replace old new (drop (length old) s)
      else hd s # str_replace old new (tl s))"

declare str_replace.simps [simp del]

text \<open>\<open>s.strip(chars)\<close>: drops the leading and the trailing characters that are in \<open>chars\<close>.\<close>

definition str_strip :: "string \<Rightarrow> string \<Rightarrow> string" where
  "str_strip chars s =
     rev (dropWhile (\<lambda>c. c \<in> set chars) (rev (dropWhile (\<lambda>c. c \<in> set chars) s)))"

subsection \<open>Hexadecimal text\<close>

text \<open>The digit \<open>'%x'\<close> prints for a value below 16 (the only values it is applied to).\<close>

definition hexdigit :: "nat \<Rightarrow> char" where
  "hexdigit d = ''0123456789abcdef'' ! d"

text \<open>\<open>'%x' % n\<close> for \<open>n \<ge> 0\<close>: the digits of \<open>n\<close> in base 16, most significant first.\<close>

fun hex_of_nat :: "nat \<Rightarrow> string" where
  "hex_of_nat n =
     (if n < 16 then [hexdigit n] else hex_of_nat (n div 16) @ [hexdigit (n mod 16)])"

declare hex_of_nat.simps [simp del]

text \<open>
  \<open>'%.32x' % n\<close> and \<open>'%032x' % n\<close> for \<open>n \<ge> 0\<close>: the digits of \<open>n\<close>, padded with
  zeros on the left to 32 characters (longer when \<open>n\<close> needs more digits).
\<close>

definition fmt_32x :: "nat \<Rightarrow> string" where
  "fmt_32x n = (let h = hex_of_nat n in replicate (32 - length h) (CHR ''0'') @ h)"

text \<open>The value of one hexadecimal digit, of either case.\<close>

definition hex_val :: "char \<Rightarrow> nat option" where
  "hex_val c =
     (let n = (of_char c :: nat) in
      if 48 \<le> n \<and> n \<le> 57 then Some (n - 48)
      else if 97 \<le> n \<and> n \<le> 102 then Some (n - 87)
      else if 65 \<le> n \<and> n \<le> 70 then Some (n - 55)
      else None)"

text \<open>
  \<open>int(s, 16)\<close> on ASCII text, as the interpreter reads it: white space (space, tab,
  line feed, vertical tab, form feed, carriage return) is skipped at both ends; one sign
  may come first; a \<open>0x\<close> or \<open>0X\<close> prefix may follow, and one underscore after the
  prefix; then come the digits, with single underscores allowed between two digits. No
  digit at all, an underscore at the start or at the end of the digits, two underscores in
  a row and any other character raise \<open>ValueError\<close>. Characters outside ASCII are
  neither digits nor white space here.

  \<open>scan_digits prev acc k s\<close> reads the digits and underscores at the front of \<open>s\<close>:
  \<open>prev\<close> is the character read last, \<open>acc\<close> the value so far and \<open>k\<close> the number of
  digits; it answers the value, the number of digits and the text left, or \<open>None\<close> for
  a misplaced underscore.
\<close>

definition py_isspace :: "char \<Rightarrow> bool" where
  "py_isspace c = (c \<in> set [CHR '' '', CHR 0x09, CHR 0x0A, CHR 0x0B, CHR 0x0C, CHR 0x0D])"

fun scan_digits :: "char option \<Rightarrow> nat \<Rightarrow> nat \<Rightarrow> string \<Rightarrow> (nat \<times> nat \<times> string) option" where
  "scan_digits prev acc k [] = (if prev = Some (CHR ''_'') then None else Some (acc, k, []))"
| "scan_digits prev acc k (c # cs) =
     (if c = CHR ''_'' then
        (if prev = Some (CHR ''_'') then None else scan_digits (Some c) acc k cs)
      else case hex_val c of
        Some d \<Rightarrow> scan_digits (Some c) (acc * 16 + d) (Suc k) cs
      | None \<Rightarrow> if prev = Some (CHR ''_'') then None else Some (acc, k, c # cs))"

definition int_16 :: "string \<Rightarrow> error + int" where
  "int_16 s =
     (let s1 = dropWhile py_isspace s;
          negative = (take 1 s1 = ''-'');
          s2 = (if take 1 s1 = ''+'' \<or> take 1 s1 = ''-'' then drop 1 s1 else s1);
          s3 = (if take 1 s2 = ''0'' \<and> (take 1 (drop 1 s2) = ''x'' \<or> take 1 (drop 1 s2) = ''X'')
                then (if take 1 (drop 2 s2) = ''_'' then drop 3 s2 else drop 2 s2)
                else s2)
      in if take 1 s3 = ''_'' then Inl ValueError
         else case scan_digits None 0 0 s3 of
           None \<Rightarrow> Inl ValueError
         | Some (n, k, rest) \<Rightarrow>
             if k = 0 then Inl ValueError
             else if dropWhile py_isspace rest \<noteq> [] then Inl ValueError
             else Inr (if negative then - int n else int n))"

subsection \<open>The standard library's \<open>uuid.UUID\<close>\<close>

text \<open>
  A \<open>uuid.UUID\<close> object holds one integer \<open>int\<close> with \<open>0 \<le> int < 2 ^ 128\<close>; it is
  modelled as a 128-bit word, \<open>unat\<close> reading the attribute \<open>int\<close>.

  \<open>uuid.UUID(hex)\<close> with a string: \<open>urn:\<close> and \<open>uuid:\<close> are removed, braces are
  stripped at both ends, dashes are removed, and the 32 characters left are read in
  base 16.
\<close>

definition UUID_hex :: "string \<Rightarrow> error + 128 word" where
  "UUID_hex hex0 =
     (let hex1 = str_replace ''uuid:'' [] (str_replace ''urn:'' [] hex0);
          hex2 = str_replace ''-'' [] (str_strip ''{}'' hex1)
      in if length hex2 \<noteq> 32 then Inl ValueError
         else case int_16 hex2 of
           Inl e \<Rightarrow> Inl e
         | Inr n \<Rightarrow> if 0 \<le> n \<and> n < 2 ^ 128 then Inr (of_int n) else Inl ValueError)"

text \<open>\<open>int.from_bytes(b, 'big')\<close> and \<open>n.to_bytes(k, 'big')\<close> (for \<open>n < 256 ^ k\<close>).\<close>

definition from_bytes :: "byte list \<Rightarrow> nat" where
  "from_bytes bs = foldl (\<lambda>a b. a * 256 + unat b) 0 bs"

fun to_bytes :: "nat \<Rightarrow> nat \<Rightarrow> byte list" where
  "to_bytes 0 n = []"
| "to_bytes (Suc k) n = to_bytes k (n div 256) @ [of_nat (n mod 256)]"

text \<open>\<open>uuid.UUID(bytes=b)\<close> with a bytes object, the attribute \<open>bytes\<close> and \<open>str(u)\<close>.\<close>

definition UUID_of_bytes :: "byte list \<Rightarrow> error + 128 word" where
  "UUID_of_bytes bs =
     (if length bs \<noteq> 16 then Inl ValueError
      else let n = from_bytes bs in if n < 2 ^ 128 then Inr (of_nat n) else Inl ValueError)"

definition UUID_bytes :: "128 word \<Rightarrow> byte list" where
  "UUID_bytes u = to_bytes 16 (unat u)"

definition UUID_str :: "128 word \<Rightarrow> string" where
  "UUID_str u =
     (let h = fmt_32x (unat u)
      in take 8 h @ ''-'' @ take 4 (drop 8 h) @ ''-'' @ take 4 (drop 12 h) @ ''-''
         @ take 4 (drop 16 h) @ ''-'' @ drop 20 h)"

section \<open>The dialect and the column types\<close>

text \<open>
  The codecs of \<open>rucio/db/sqla/types.py\<close> read one attribute of the dialect, its
  \<open>name\<close>, and compare it with \<open>'postgresql'\<close>, \<open>'oracle'\<close> and \<open>'mysql'\<close>; every
  other name takes the last branch (the generic backend).
\<close>

record dialect =
  name :: string

text \<open>
  The column types the codecs choose from, with their length argument where the
  source gives one: \<open>String()\<close> is \<open>SA_String None\<close>, \<open>String(255)\<close> is
  \<open>SA_String (Some 255)\<close>. \<open>SA_CHAR\<close>, \<open>SA_String\<close> and \<open>SA_JSON\<close> are the
  \<open>CHAR\<close>, \<open>String\<close> and \<open>JSON\<close> of \<open>sqlalchemy.types\<close>, \<open>PG_UUID\<close> is
  \<open>sqlalchemy.dialects.postgresql.UUID\<close>.
\<close>

datatype column_type =
    PG_UUID
  | RAW nat
  | BINARY nat
  | SA_CHAR "nat option"
  | SA_String "nat option"
  | JSONB
  | SA_JSON
  | CLOB

text \<open>
  \<open>dialect.type_descriptor(t)\<close> answers the dialect's own implementation of the type
  \<open>t\<close>, of the same kind and with the same arguments: the column shape is \<open>t\<close>'s.
\<close>

definition type_descriptor :: "dialect \<Rightarrow> column_type \<Rightarrow> column_type" where
  "type_descriptor dialect t = t"

section \<open>GUID\<close>

text \<open>
  What a caller binds to a GUID column: a string or a \<open>uuid.UUID\<close> object
  (\<open>None\<close> is the \<open>None\<close> of the option type). What the database driver hands back
  or takes: text, bytes, or a \<open>uuid.UUID\<close> object.
\<close>

datatype guid_value = GStr string | GUUID "128 word"

datatype db_value = DStr string | DBytes "byte list" | DUUID "128 word"

definition GUID_load_dialect_impl :: "dialect \<Rightarrow> column_type" where
  "GUID_load_dialect_impl dialect =
     (if name dialect = ''postgresql'' then type_descriptor dialect PG_UUID
      else if name dialect = ''oracle'' then type_descriptor dialect (RAW 16)
      else if name dialect = ''mysql'' then type_descriptor dialect (BINARY 16)
      else type_descriptor dialect (SA_CHAR (Some 32)))"

text \<open>\<open>str(value)\<close> for a bound value.\<close>

definition guid_str :: "guid_value \<Rightarrow> string" where
  "guid_str v = (case v of GStr s \<Rightarrow> s | GUUID u \<Rightarrow> UUID_str u)"

text \<open>
  \<open>uuid.UUID(value)\<close>: the argument is taken as \<open>hex\<close>, and the constructor starts
  with \<open>hex.replace('urn:', '')\<close>. A \<open>uuid.UUID\<close> object has no attribute
  \<open>replace\<close>: the call raises \<open>AttributeError\<close>.
\<close>

definition UUID_of_value :: "guid_value \<Rightarrow> error + 128 word" where
  "UUID_of_value v = (case v of GStr s \<Rightarrow> UUID_hex s | GUUID u \<Rightarrow> Inl AttributeError)"

definition GUID_process_bind_param :: "guid_value option \<Rightarrow> dialect \<Rightarrow> error + db_value option" where
  "GUID_process_bind_param v dialect =
     (case v of
        None \<Rightarrow> Inr None
      | Some x \<Rightarrow>
          if name dialect = ''postgresql'' then Inr (Some (DStr (str_lower (guid_str x))))
          else if name dialect = ''oracle'' then
            (case UUID_of_value x of
               Inl e \<Rightarrow> Inl e
             | Inr u \<Rightarrow> Inr (Some (DBytes (UUID_bytes u))))
          else if name dialect = ''mysql'' then
            (case UUID_of_value x of
               Inl e \<Rightarrow> Inl e
             | Inr u \<Rightarrow> Inr (Some (DBytes (UUID_bytes u))))
          else
            (case x of
               GStr s \<Rightarrow>
                 (case UUID_of_value x of
                    Inl e \<Rightarrow> Inl e
                  | Inr u \<Rightarrow> Inr (Some (DStr (fmt_32x (unat u)))))
             | GUUID u \<Rightarrow> Inr (Some (DStr (fmt_32x (unat u))))))"

text \<open>
  \<open>uuid.UUID(value)\<close> and \<open>uuid.UUID(bytes=value)\<close> on a value read from the
  database. With \<open>bytes=\<close>, the length is checked first and then the type is asserted;
  with a bytes object as \<open>hex\<close>, \<open>replace\<close> is given \<open>str\<close> arguments and raises
  \<open>TypeError\<close>. The codec never passes a \<open>uuid.UUID\<close> object to either (it tests
  \<open>isinstance\<close> first); the constructor would raise on it.
\<close>

definition UUID_of_db :: "db_value \<Rightarrow> error + 128 word" where
  "UUID_of_db v =
     (case v of DStr s \<Rightarrow> UUID_hex s | DBytes b \<Rightarrow> Inl TypeError | DUUID u \<Rightarrow> Inl AttributeError)"

definition UUID_of_db_bytes :: "db_value \<Rightarrow> error + 128 word" where
  "UUID_of_db_bytes v =
     (case v of
        DBytes b \<Rightarrow> UUID_of_bytes b
      | DStr s \<Rightarrow> if length s \<noteq> 16 then Inl ValueError else Inl AssertionError
      | DUUID u \<Rightarrow> Inl TypeError)"

text \<open>\<open>str(u).replace('-', '').lower()\<close>, the last step of every decoding branch.\<close>

definition undashed_lower :: "128 word \<Rightarrow> string" where
  "undashed_lower u = str_lower (str_replace ''-'' [] (UUID_str u))"

definition GUID_process_result_value :: "db_value option \<Rightarrow> dialect \<Rightarrow> error + string option" where
  "GUID_process_result_value v dialect =
     (case v of
        None \<Rightarrow> Inr None
      | Some x \<Rightarrow>
          if name dialect = ''oracle'' then
            (case (case x of DUUID u \<Rightarrow> Inr u | _ \<Rightarrow> UUID_of_db_bytes x) of
               Inl e \<Rightarrow> Inl e
             | Inr u \<Rightarrow> Inr (Some (undashed_lower u)))
          else if name dialect = ''mysql'' then
            (case (case x of DUUID u \<Rightarrow> Inr u | _ \<Rightarrow> UUID_of_db_bytes x) of
               Inl e \<Rightarrow> Inl e
             | Inr u \<Rightarrow> Inr (Some (undashed_lower u)))
          else
            (case (case x of DUUID u \<Rightarrow> Inr u | _ \<Rightarrow> UUID_of_db x) of
               Inl e \<Rightarrow> Inl e
             | Inr u \<Rightarrow> Inr (Some (undashed_lower u))))"

text \<open>Writing a value and reading back what was written, under one dialect.\<close>

definition GUID_round_trip :: "guid_value option \<Rightarrow> dialect \<Rightarrow> error + string option" where
  "GUID_round_trip v dialect =
     (case GUID_process_bind_param v dialect of
        Inl e \<Rightarrow> Inl e
      | Inr stored \<Rightarrow> GUID_process_result_value stored dialect)"

text \<open>
  The canonical form of an identifier: its 128-bit integer as 32 lowercase
  hexadecimal digits (\<open>uuid.UUID.hex\<close>).
\<close>

definition canonical_lowercase_hex :: "128 word \<Rightarrow> string" where
  "canonical_lowercase_hex u = fmt_32x (unat u)"

text \<open>
  Used in the proofs below: \<open>hex_value acc s\<close> is the number a string of hexadecimal
  digits denotes, continuing from \<open>acc\<close>; \<open>lowerhex s\<close> holds when every character
  of \<open>s\<close> is a lowercase hexadecimal digit, \<open>plain s\<close> when every character is such a
  digit or a dash.
\<close>

fun hex_value :: "nat \<Rightarrow> string \<Rightarrow> nat option" where
  "hex_value acc [] = Some acc"
| "hex_value acc (c # cs) =
     (case hex_val c of None \<Rightarrow> None | Some d \<Rightarrow> hex_value (acc * 16 + d) cs)"

definition lowerhex_char :: "char \<Rightarrow> bool" where
  "lowerhex_char c = (c \<in> set ''0123456789abcdef'')"

definition lowerhex :: "string \<Rightarrow> bool" where
  "lowerhex s = list_all lowerhex_char s"

definition plain :: "string \<Rightarrow> bool" where
  "plain s = list_all (\<lambda>c. lowerhex_char c \<or> c = CHR ''-'') s"

section \<open>BooleanString\<close>

text \<open>
  What a caller binds to a BooleanString column: a \<open>bool\<close>, a \<open>str\<close>, or an object of
  another type, which the codec only passes to \<open>str()\<close>; \<open>BObject r\<close> is such an
  object, given by the text \<open>r\<close> that \<open>str()\<close> returns for it. The column is text, so
  the value read back is a \<open>str\<close> (or \<open>None\<close>), and the decoded value is a \<open>bool\<close> or
  a \<open>str\<close>.
\<close>

datatype bool_value = BBool bool | BStr string | BObject string

definition bool_value_str :: "bool_value \<Rightarrow> string" where
  "bool_value_str v =
     (case v of BBool b \<Rightarrow> (if b then ''True'' else ''False'') | BStr s \<Rightarrow> s | BObject r \<Rightarrow> r)"

definition BooleanString_load_dialect_imp :: "dialect \<Rightarrow> column_type" where
  "BooleanString_load_dialect_imp dialect = type_descriptor dialect (SA_String (Some 255))"

definition BooleanString_process_bind_param :: "bool_value option \<Rightarrow> dialect \<Rightarrow> string option" where
  "BooleanString_process_bind_param v dialect =
     (case v of
        None \<Rightarrow> None
      | Some x \<Rightarrow>
          (case x of
             BBool b \<Rightarrow> if b then Some ''true'' else Some ''false''
           | BStr s \<Rightarrow>
               if str_lower s = ''true'' then Some ''true''
               else if str_lower s = ''false'' then Some ''false''
               else Some (bool_value_str x)
           | BObject r \<Rightarrow> Some (bool_value_str x)))"

definition BooleanString_process_result_value :: "string option \<Rightarrow> dialect \<Rightarrow> bool_value option" where
  "BooleanString_process_result_value v dialect =
     (case v of
        None \<Rightarrow> None
      | Some s \<Rightarrow>
          if str_lower s = ''true'' then Some (BBool True)
          else if str_lower s = ''false'' then Some (BBool False)
          else Some (BStr s))"

section \<open>JSON\<close>

text \<open>
  The class defines one method, \<open>load_dialect_impl\<close>; it has no
  \<open>process_bind_param\<close> and no \<open>process_result_value\<close>.
\<close>

definition JSON_load_dialect_impl :: "dialect \<Rightarrow> column_type" where
  "JSON_load_dialect_impl dialect =
     (if name dialect = ''postgresql'' then type_descriptor dialect JSONB
      else if name dialect = ''mysql'' then type_descriptor dialect SA_JSON
      else if name dialect = ''oracle'' then type_descriptor dialect CLOB
      else type_descriptor dialect (SA_String None))"

section \<open>InternalAccountString and InternalScopeString\<close>

text \<open>
  \<open>InternalAccount\<close> and \<open>InternalScope\<close> are classes of \<open>rucio.common.types\<close>. The
  codecs read one attribute of such an object, \<open>internal\<close>, the namespace-qualified
  name.
\<close>

record internal_type =
  internal :: string

text \<open>
  What a caller binds to an identity column: a bare \<open>str\<close> or one of the two typed
  wrappers. Either codec reads \<open>value.internal\<close> of whatever is not a \<open>str\<close>, so it takes
  the other codec's wrapper as it takes its own.
\<close>

datatype identity_value = IStr string | IAccount internal_type | IScope internal_type

definition InternalAccountString_load_dialect_imp :: "dialect \<Rightarrow> column_type" where
  "InternalAccountString_load_dialect_imp dialect = type_descriptor dialect (SA_String (Some 255))"

definition InternalAccountString_process_bind_param ::
    "identity_value option \<Rightarrow> dialect \<Rightarrow> error + string option" where
  "InternalAccountString_process_bind_param v dialect =
     (case v of
        None \<Rightarrow> Inr None
      | Some x \<Rightarrow>
          (case x of
             IStr s \<Rightarrow> Inl InvalidType
           | IAccount a \<Rightarrow> Inr (Some (internal a))
           | IScope a \<Rightarrow> Inr (Some (internal a))))"

definition InternalScopeString_load_dialect_imp :: "dialect \<Rightarrow> column_type" where
  "InternalScopeString_load_dialect_imp dialect = type_descriptor dialect (SA_String (Some 255))"

definition InternalScopeString_process_bind_param ::
    "identity_value option \<Rightarrow> dialect \<Rightarrow> error + string option" where
  "InternalScopeString_process_bind_param v dialect =
     (case v of
        None \<Rightarrow> Inr None
      | Some x \<Rightarrow>
          (case x of
             IStr s \<Rightarrow> Inl InvalidType
           | IAccount a \<Rightarrow> Inr (Some (internal a))
           | IScope a \<Rightarrow> Inr (Some (internal a))))"

text \<open>
  Modelled from the spec: the constructors \<open>InternalAccount(value, from_external)\<close> and
  \<open>InternalScope(value, from_external)\<close> of \<open>rucio.common.types\<close>, which are not among
  the sources. The spec describes a wrapper that carries an internal, namespace-qualified
  name, derived from the external name by a namespace-resolution step unless the wrapper
  is built as not coming from the external form, in which case the given string is the
  internal name. The resolution step is the parameter \<open>resolve\<close>; the state threaded
  through the constructor is the list of names \<open>resolve\<close> was called on, in call order,
  as a spy on the resolver would record them.
\<close>

definition InternalType_init ::
    "(string \<Rightarrow> string) \<Rightarrow> string \<Rightarrow> bool \<Rightarrow> string list \<Rightarrow> internal_type \<times> string list" where
  "InternalType_init resolve v from_external calls =
     (if from_external then (\<lparr>internal = resolve v\<rparr>, calls @ [v])
      else (\<lparr>internal = v\<rparr>, calls))"

definition InternalAccount ::
    "(string \<Rightarrow> string) \<Rightarrow> string \<Rightarrow> bool \<Rightarrow> string list \<Rightarrow> identity_value \<times> string list" where
  "InternalAccount resolve v from_external calls =
     (case InternalType_init resolve v from_external calls of (w, calls') \<Rightarrow> (IAccount w, calls'))"

definition InternalScope ::
    "(string \<Rightarrow> string) \<Rightarrow> string \<Rightarrow> bool \<Rightarrow> string list \<Rightarrow> identity_value \<times> string list" where
  "InternalScope resolve v from_external calls =
     (case InternalType_init resolve v from_external calls of (w, calls') \<Rightarrow> (IScope w, calls'))"

definition InternalAccountString_process_result_value ::
    "(string \<Rightarrow> string) \<Rightarrow> string option \<Rightarrow> dialect \<Rightarrow> string list
       \<Rightarrow> identity_value option \<times> string list" where
  "InternalAccountString_process_result_value resolve v dialect calls =
     (case v of
        None \<Rightarrow> (None, calls)
      | Some s \<Rightarrow>
          (case InternalAccount resolve s False calls of (w, calls') \<Rightarrow> (Some w, calls')))"

definition InternalScopeString_process_result_value ::
    "(string \<Rightarrow> string) \<Rightarrow> string option \<Rightarrow> dialect \<Rightarrow> string list
       \<Rightarrow> identity_value option \<times> string list" where
  "InternalScopeString_process_result_value resolve v dialect calls =
     (case v of
        None \<Rightarrow> (None, calls)
      | Some s \<Rightarrow>
          (case InternalScope resolve s False calls of (w, calls') \<Rightarrow> (Some w, calls')))"

text \<open>
  \<open>coerce_compared_value(self, op, value)\<close>: the type of the other side of a
  comparison. The operators are functions of \<open>sqlalchemy.sql.operators\<close>, compared
  by identity; \<open>other_op\<close> stands for any operator not listed. The answer is a plain
  column type or the decorator \<open>self\<close>.
\<close>

datatype operator =
    like_op
  | notlike_op
  | ilike_op
  | notilike_op
  | contains_op
  | startswith_op
  | endswith_op
  | in_op
  | eq
  | ne
  | other_op string

datatype codec = GUID | BooleanString | JSON | InternalAccountString | InternalScopeString

text \<open>
  A type in a query: a plain column type, or an instance of one of the five decorator
  classes with the length it was constructed with (\<open>InternalAccountString(25)\<close> is
  \<open>Decorator InternalAccountString (Some 25)\<close>).
\<close>

datatype type_engine = Plain column_type | Decorator codec "nat option"

definition InternalAccountString_coerce_compared_value ::
    "type_engine \<Rightarrow> operator \<Rightarrow> 'v \<Rightarrow> type_engine" where
  "InternalAccountString_coerce_compared_value self opr v =
     (if opr \<in> set [like_op, notlike_op] then Plain (SA_String None) else self)"

definition InternalScopeString_coerce_compared_value ::
    "type_engine \<Rightarrow> operator \<Rightarrow> 'v \<Rightarrow> type_engine" where
  "InternalScopeString_coerce_compared_value self opr v =
     (if opr \<in> set [like_op, notlike_op] then Plain (SA_String None) else self)"

section \<open>How SQLAlchemy uses a decorator class\<close>

text \<open>
  The five classes extend \<open>sqlalchemy.types.TypeDecorator\<close>, which finds the hooks
  of a subclass by name. For the column type it calls \<open>self.load_dialect_impl(dialect)\<close>;
  a subclass that defines no method of that name inherits \<open>TypeDecorator\<close>'s, which
  answers the instance of the class attribute \<open>impl\<close> built from the constructor's
  arguments.

  \<open>class_defines\<close> lists the methods each class body defines, in the order and
  under the names of the source; \<open>shape_methods\<close> gives, for those of them that answer
  a column type, the function under that name; \<open>impl\<close> is the class attribute applied
  to the length the decorator was constructed with (\<open>types.JSON\<close> takes no length).
\<close>

fun class_defines :: "codec \<Rightarrow> string list" where
  "class_defines GUID =
     [''load_dialect_impl'', ''process_bind_param'', ''process_result_value'']"
| "class_defines BooleanString =
     [''load_dialect_imp'', ''process_bind_param'', ''process_result_value'']"
| "class_defines JSON = [''load_dialect_impl'']"
| "class_defines InternalAccountString =
     [''load_dialect_imp'', ''process_bind_param'', ''process_result_value'',
      ''coerce_compared_value'']"
| "class_defines InternalScopeString =
     [''load_dialect_imp'', ''process_bind_param'', ''process_result_value'',
      ''coerce_compared_value'']"

fun shape_methods :: "codec \<Rightarrow> (string \<times> (dialect \<Rightarrow> column_type)) list" where
  "shape_methods GUID = [(''load_dialect_impl'', GUID_load_dialect_impl)]"
| "shape_methods BooleanString = [(''load_dialect_imp'', BooleanString_load_dialect_imp)]"
| "shape_methods JSON = [(''load_dialect_impl'', JSON_load_dialect_impl)]"
| "shape_methods InternalAccountString =
     [(''load_dialect_imp'', InternalAccountString_load_dialect_imp)]"
| "shape_methods InternalScopeString =
     [(''load_dialect_imp'', InternalScopeString_load_dialect_imp)]"

fun impl :: "codec \<Rightarrow> nat option \<Rightarrow> column_type" where
  "impl GUID len = SA_CHAR len"
| "impl BooleanString len = SA_String len"
| "impl JSON len = SA_JSON"
| "impl InternalAccountString len = SA_String len"
| "impl InternalScopeString len = SA_String len"

definition dialect_impl :: "codec \<Rightarrow> nat option \<Rightarrow> dialect \<Rightarrow> column_type" where
  "dialect_impl cls len dialect =
     (case map_of (shape_methods cls) ''load_dialect_impl'' of
        Some load_dialect_impl \<Rightarrow> load_dialect_impl dialect
      | None \<Rightarrow> impl cls len)"

text \<open>
  A decorator class without a \<open>process_bind_param\<close> of its own binds a value with the
  bind processor of its column type. The JSON types of SQLAlchemy, built as the source
  builds them (\<open>JSONB()\<close>, \<open>types.JSON()\<close>: \<open>none_as_null\<close> is false), hand every
  value to the JSON serializer, \<open>None\<close> included, and store the text it returns; the
  text types pass the value on as it is. \<open>Serialized v\<close> stands for the text the
  serializer returns for \<open>v\<close> (\<open>Serialized None\<close> is the JSON text \<open>null\<close>), and
  \<open>Unchanged v\<close> for the value itself (\<open>Unchanged None\<close> is \<open>None\<close>).
\<close>

datatype 'doc bound = Serialized "'doc option" | Unchanged "'doc option"

definition bind_processor :: "column_type \<Rightarrow> 'doc option \<Rightarrow> 'doc bound" where
  "bind_processor t v =
     (case t of JSONB \<Rightarrow> Serialized v | SA_JSON \<Rightarrow> Serialized v | _ \<Rightarrow> Unchanged v)"

definition JSON_bind :: "'doc option \<Rightarrow> dialect \<Rightarrow> 'doc bound" where
  "JSON_bind v dialect = bind_processor (dialect_impl JSON None dialect) v"

text \<open>
  Likewise a decorator class without a \<open>process_result_value\<close> reads a value with the
  result processor of its column type. Every result processor answers \<open>None\<close> for
  \<open>None\<close>; for a stored value the JSON types answer the document the deserializer
  returns (\<open>Deserialized\<close>) and the text types the value as it is (\<open>AsStored\<close>).
\<close>

datatype 'stored fetched = Deserialized 'stored | AsStored 'stored

definition result_processor :: "column_type \<Rightarrow> 'stored option \<Rightarrow> 'stored fetched option" where
  "result_processor t v =
     (case v of
        None \<Rightarrow> None
      | Some x \<Rightarrow>
          (case t of
             JSONB \<Rightarrow> Some (Deserialized x)
           | SA_JSON \<Rightarrow> Some (Deserialized x)
           | _ \<Rightarrow> Some (AsStored x)))"

definition JSON_result :: "'stored option \<Rightarrow> dialect \<Rightarrow> 'stored fetched option" where
  "JSON_result v dialect = result_processor (dialect_impl JSON None dialect) v"

section \<open>Distances\<close>

text \<open>
  \<open>rucio/core/distance.py\<close>. The session is the table of \<open>Distance\<close> rows, in the
  order the database yields them; a statement is \<open>select(Distance)\<close> with the
  conditions added by \<open>where\<close>, and \<open>session.execute(stmt).scalars().all()\<close> is the
  list of rows that meet all of them. The model class \<open>Distance\<close> and its \<open>to_dict\<close>
  are in \<open>rucio.db.sqla.models\<close>: the row type and \<open>to_dict\<close> are parameters.
\<close>

datatype 'row statement = Select "('row \<Rightarrow> bool) list"

definition select_Distance :: "'row statement" where
  "select_Distance = Select []"

definition execute_scalars_all :: "'row list \<Rightarrow> 'row statement \<Rightarrow> 'row list" where
  "execute_scalars_all session stmt =
     (case stmt of Select conds \<Rightarrow> filter (\<lambda>row. list_all (\<lambda>cond. cond row) conds) session)"

text \<open>
  \<open>filter_ = filter_ or {}\<close>: \<open>None\<close> and the empty dictionary become the empty
  dictionary. The dictionary is a list of key and value pairs; the argument \<open>filter_\<close>
  is \<open>filter_arg\<close> and the rebound variable is \<open>filter_dict\<close>.
\<close>

definition list_distances ::
    "('row \<Rightarrow> 'dict) \<Rightarrow> ('k \<times> 'v) list option \<Rightarrow> 'row list \<Rightarrow> 'dict list" where
  "list_distances to_dict filter_arg session =
     (let filter_dict = (case filter_arg of None \<Rightarrow> [] | Some f \<Rightarrow> if f = [] then [] else f);
          stmt = select_Distance
      in map to_dict (execute_scalars_all session stmt))"

section \<open>Hexadecimal digits, formatting and parsing\<close>

lemma lt16_cases:
  "d < 16 \<Longrightarrow> d = 0 \<or> d = 1 \<or> d = 2 \<or> d = 3 \<or> d = 4 \<or> d = 5 \<or> d = 6 \<or> d = 7 \<or> d = 8
     \<or> d = 9 \<or> d = 10 \<or> d = 11 \<or> d = 12 \<or> d = 13 \<or> d = 14 \<or> d = (15::nat)"
  by arith

lemma hex_val_hexdigit: "d < 16 \<Longrightarrow> hex_val (hexdigit d) = Some d"
  by (drule lt16_cases) (elim disjE; simp add: hex_val_def hexdigit_def)

lemma lower_char_hexdigit: "d < 16 \<Longrightarrow> lower_char (hexdigit d) = hexdigit d"
  by (drule lt16_cases) (elim disjE; simp add: lower_char_def hexdigit_def)

lemma hexdigit_plain:
  "d < 16 \<Longrightarrow> hexdigit d \<noteq> CHR ''-'' \<and> hexdigit d \<noteq> CHR ''u'' \<and> hexdigit d \<noteq> CHR ''{'' \<and> hexdigit d \<noteq> CHR ''}''"
  by (drule lt16_cases) (elim disjE; simp add: hexdigit_def)


lemma hexdigit_in: "d < 16 \<Longrightarrow> lowerhex_char (hexdigit d)"
  by (drule lt16_cases) (elim disjE; simp add: hexdigit_def lowerhex_char_def)

lemma lowerhex_char_0: "lowerhex_char (CHR ''0'')"
  by (simp add: lowerhex_char_def)

lemma lowerhex_append [simp]: "lowerhex (a @ b) = (lowerhex a \<and> lowerhex b)"
  by (simp add: lowerhex_def)

lemma lowerhex_hex_of_nat: "lowerhex (hex_of_nat n)"
proof (induction n rule: hex_of_nat.induct)
  case (1 n)
  show ?case
  proof (cases "n < 16")
    case True
    then show ?thesis
      by (subst hex_of_nat.simps) (simp add: lowerhex_def hexdigit_in)
  next
    case False
    with 1 have "lowerhex (hex_of_nat (n div 16))" by simp
    moreover have "lowerhex [hexdigit (n mod 16)]"
      by (simp add: lowerhex_def hexdigit_in)
    ultimately show ?thesis using False
      by (subst hex_of_nat.simps) simp
  qed
qed

lemma lowerhex_fmt_32x: "lowerhex (fmt_32x n)"
  using lowerhex_hex_of_nat [of n]
  by (simp add: fmt_32x_def Let_def) (simp add: lowerhex_def list_all_iff lowerhex_char_0)

lemma length_hex_of_nat: "0 < k \<Longrightarrow> n < 16 ^ k \<Longrightarrow> length (hex_of_nat n) \<le> k"
proof (induction n arbitrary: k rule: hex_of_nat.induct)
  case (1 n)
  show ?case
  proof (cases "n < 16")
    case True
    then show ?thesis using 1(2) by (subst hex_of_nat.simps) simp
  next
    case False
    obtain j where k: "k = Suc j" using 1(2) by (cases k) auto
    have "j \<noteq> 0" using False 1(3) k by (cases j) auto
    moreover have "n div 16 < 16 ^ j" using 1(3) k
      by (simp add: less_mult_imp_div_less mult.commute)
    ultimately have "length (hex_of_nat (n div 16)) \<le> j"
      using 1(1) [OF False, of j] by simp
    then show ?thesis using False k by (subst hex_of_nat.simps) simp
  qed
qed

lemma length_fmt_32x: "n < 2 ^ 128 \<Longrightarrow> length (fmt_32x n) = 32"
proof -
  assume "n < 2 ^ 128"
  then have "n < 16 ^ 32" by simp
  then have "length (hex_of_nat n) \<le> 32" by (intro length_hex_of_nat) simp_all
  then show ?thesis by (simp add: fmt_32x_def Let_def)
qed

lemma hex_value_append:
  "hex_value acc (xs @ ys) = (case hex_value acc xs of None \<Rightarrow> None | Some a \<Rightarrow> hex_value a ys)"
  by (induction xs arbitrary: acc) (auto split: option.splits)

lemma hex_value_hex_of_nat:
  "hex_value acc (hex_of_nat n) = Some (acc * 16 ^ length (hex_of_nat n) + n)"
proof (induction n arbitrary: acc rule: hex_of_nat.induct)
  case (1 n)
  show ?case
  proof (cases "n < 16")
    case True
    then show ?thesis by (subst (1 2) hex_of_nat.simps) (simp add: hex_val_hexdigit)
  next
    case False
    have d: "hex_val (hexdigit (n mod 16)) = Some (n mod 16)"
      by (simp add: hex_val_hexdigit)
    show ?thesis using False
      by (subst (1 2) hex_of_nat.simps)
         (simp add: hex_value_append 1 [OF False] d algebra_simps)
  qed
qed

lemma hex_value_zeros: "hex_value 0 (replicate k (CHR ''0'') @ s) = hex_value 0 s"
  by (induction k) (simp_all add: hex_val_def)

lemma lowerhex_char_digit:
  "lowerhex_char c \<Longrightarrow>
     (\<exists>d. hex_val c = Some d) \<and> \<not> py_isspace c \<and> c \<noteq> CHR ''_'' \<and> c \<noteq> CHR ''+''
     \<and> c \<noteq> CHR ''-'' \<and> c \<noteq> CHR ''x'' \<and> c \<noteq> CHR ''X''"
  by (auto simp: lowerhex_char_def hex_val_def py_isspace_def)

lemma scan_digits_lowerhex:
  "lowerhex s \<Longrightarrow> prev \<noteq> Some (CHR ''_'') \<Longrightarrow>
   scan_digits prev acc k s = map_option (\<lambda>v. (v, k + length s, [])) (hex_value acc s)"
proof (induction s arbitrary: prev acc k)
  case Nil
  then show ?case by simp
next
  case (Cons c cs)
  from Cons.prems(1) have c: "lowerhex_char c" and cs: "lowerhex cs"
    by (simp_all add: lowerhex_def)
  from lowerhex_char_digit [OF c] obtain d where d: "hex_val c = Some d" and u: "c \<noteq> CHR ''_''"
    by blast
  from u have "Some c \<noteq> Some (CHR ''_'')" by simp
  from Cons.IH [OF cs this] show ?case
    using d u by simp
qed

lemma int_16_lowerhex:
  assumes "lowerhex s" and "hex_value 0 s = Some v" and "s \<noteq> []"
  shows "int_16 s = Inr (int v)"
proof -
  obtain c cs where s: "s = c # cs" using assms(3) by (cases s) auto
  from assms(1) s have c: "lowerhex_char c" and cs: "lowerhex cs"
    by (simp_all add: lowerhex_def)
  note cd = lowerhex_char_digit [OF c]
  from cd have sp: "dropWhile py_isspace s = s" by (simp add: s)
  from cd have sg: "take 1 s \<noteq> ''+''" "take 1 s \<noteq> ''-''" "take 1 s \<noteq> ''_''"
    by (simp_all add: s)
  have px: "take 1 (drop 1 s) \<noteq> ''x''" "take 1 (drop 1 s) \<noteq> ''X''"
  proof -
    show "take 1 (drop 1 s) \<noteq> ''x''"
    proof (cases cs)
      case Nil
      then show ?thesis by (simp add: s)
    next
      case (Cons b bs)
      with cs have "lowerhex_char b" by (simp add: lowerhex_def)
      from lowerhex_char_digit [OF this] show ?thesis by (simp add: s Cons)
    qed
    show "take 1 (drop 1 s) \<noteq> ''X''"
    proof (cases cs)
      case Nil
      then show ?thesis by (simp add: s)
    next
      case (Cons b bs)
      with cs have "lowerhex_char b" by (simp add: lowerhex_def)
      from lowerhex_char_digit [OF this] show ?thesis by (simp add: s Cons)
    qed
  qed
  have sc: "scan_digits None 0 0 s = Some (v, length s, [])"
    using scan_digits_lowerhex [OF assms(1), of None 0 0] assms(2) by simp
  show ?thesis
    using sg px assms(3) by (simp add: int_16_def Let_def sp sc)
qed

lemma int_16_fmt_32x: "int_16 (fmt_32x n) = Inr (int n)"
proof -
  have ne: "hex_of_nat n \<noteq> []" by (subst hex_of_nat.simps) simp
  then have "fmt_32x n \<noteq> []" by (simp add: fmt_32x_def Let_def)
  moreover have "hex_value 0 (fmt_32x n) = Some n"
    by (simp add: fmt_32x_def Let_def hex_value_zeros hex_value_hex_of_nat)
  ultimately show ?thesis
    using int_16_lowerhex [OF lowerhex_fmt_32x] by blast
qed

text \<open>
  The other forms \<open>int(s, 16)\<close> takes, and some it refuses, at concrete strings.
\<close>

lemma int_16_forms:
  "int_16 '' +0x_1f_F '' = Inr 511
   \<and> int_16 ''-ff'' = Inr (- 255)
   \<and> int_16 ''0x__1'' = Inl ValueError
   \<and> int_16 ''1_'' = Inl ValueError
   \<and> int_16 ''0x'' = Inl ValueError
   \<and> int_16 ''1 2'' = Inl ValueError"
  by code_simp

section \<open>Strings without the characters \<open>uuid.UUID\<close> removes\<close>

lemma str_replace_absent:
  "old \<noteq> [] \<Longrightarrow> hd old \<notin> set s \<Longrightarrow> str_replace old new s = s"
proof (induction s)
  case Nil
  then show ?case by (subst str_replace.simps) simp
next
  case (Cons c cs)
  have "take (length old) (c # cs) \<noteq> old"
  proof
    assume h: "take (length old) (c # cs) = old"
    with Cons(2) have "hd old = c" by (cases old) auto
    with Cons(3) show False by simp
  qed
  with Cons show ?case by (subst str_replace.simps) simp
qed

lemma str_replace_char:
  "str_replace [c] [] s = filter (\<lambda>x. x \<noteq> c) s"
proof (induction s)
  case Nil
  then show ?case by (subst str_replace.simps) simp
next
  case (Cons a as)
  then show ?case by (subst str_replace.simps) simp
qed

lemma dropWhile_none: "\<forall>c \<in> set xs. \<not> P c \<Longrightarrow> dropWhile P xs = xs"
  by (cases xs) auto

lemma str_strip_absent:
  "\<forall>c \<in> set s. c \<notin> set chars \<Longrightarrow> str_strip chars s = s"
  by (simp add: str_strip_def dropWhile_none)

section \<open>Bytes\<close>

lemma from_bytes_append: "from_bytes (xs @ [b]) = from_bytes xs * 256 + unat b"
  by (simp add: from_bytes_def)

lemma length_to_bytes [simp]: "length (to_bytes k n) = k"
  by (induction k arbitrary: n) simp_all

lemma from_bytes_to_bytes: "from_bytes (to_bytes k n) = n mod 256 ^ k"
proof (induction k arbitrary: n)
  case 0
  then show ?case by (simp add: from_bytes_def)
next
  case (Suc k)
  have "unat (of_nat (n mod 256) :: byte) = n mod 256"
    by (simp add: unat_of_nat)
  then show ?case
    by (simp add: from_bytes_append Suc mod_mult2_eq)
qed

lemma UUID_of_bytes_bytes: "UUID_of_bytes (UUID_bytes u) = Inr u"
proof -
  have "unat u < 2 ^ 128" using unsigned_less [of u] by simp
  then have "unat u mod 256 ^ 16 = unat u" by simp
  then show ?thesis
    using \<open>unat u < 2 ^ 128\<close>
    by (simp add: UUID_of_bytes_def UUID_bytes_def from_bytes_to_bytes Let_def)
qed

lemma to_bytes_from_bytes: "to_bytes (length bs) (from_bytes bs) = bs"
proof (induction bs rule: rev_induct)
  case Nil
  then show ?case by simp
next
  case (snoc b bs)
  have lt: "unat b < 256" using unsigned_less [of b] by simp
  then have d: "(from_bytes bs * 256 + unat b) div 256 = from_bytes bs"
    by simp
  show ?case
    using lt by (simp add: from_bytes_append d snoc)
qed

lemma UUID_bytes_of_bytes: "UUID_of_bytes bs = Inr u \<Longrightarrow> UUID_bytes u = bs"
proof -
  assume h: "UUID_of_bytes bs = Inr u"
  then have l: "length bs = 16" and b: "from_bytes bs < 2 ^ 128"
    and u: "u = of_nat (from_bytes bs)"
    by (auto simp: UUID_of_bytes_def Let_def split: if_splits)
  from b u have "unat u = from_bytes bs"
    by (simp add: unat_of_nat)
  then show ?thesis
    using to_bytes_from_bytes [of bs] l by (simp add: UUID_bytes_def)
qed

section \<open>Parsing what \<open>uuid.UUID\<close> prints\<close>

lemma lowerhex_plain:
  "lowerhex_char c \<Longrightarrow> c \<noteq> CHR ''-'' \<and> c \<noteq> CHR ''u'' \<and> c \<noteq> CHR ''{'' \<and> c \<noteq> CHR ''}'' \<and> lower_char c = c"
  by (auto simp: lowerhex_char_def lower_char_def)


lemma str_lower_plain: "plain s \<Longrightarrow> str_lower s = s"
proof (induction s)
  case Nil
  then show ?case by (simp add: str_lower_def)
next
  case (Cons c cs)
  have "lower_char (CHR ''-'') = CHR ''-''" by (simp add: lower_char_def)
  with Cons show ?case
    by (auto simp: plain_def str_lower_def lowerhex_plain)
qed

lemma UUID_hex_plain:
  assumes "plain s"
  shows "UUID_hex s =
     (let h = filter (\<lambda>x. x \<noteq> CHR ''-'') s in
      if length h \<noteq> 32 then Inl ValueError
      else case int_16 h of Inl e \<Rightarrow> Inl e
        | Inr n \<Rightarrow> if 0 \<le> n \<and> n < 2 ^ 128 then Inr (of_int n) else Inl ValueError)"
proof -
  have nu: "CHR ''u'' \<notin> set s" and nb: "\<forall>c \<in> set s. c \<notin> set ''{}''"
    using assms by (auto simp: plain_def list_all_iff dest: lowerhex_plain)
  have "str_replace ''urn:'' [] s = s"
    using nu by (intro str_replace_absent) simp_all
  moreover have "str_replace ''uuid:'' [] s = s"
    using nu by (intro str_replace_absent) simp_all
  moreover have "str_strip ''{}'' s = s"
    using nb by (rule str_strip_absent)
  ultimately show ?thesis
    by (simp add: UUID_hex_def str_replace_char)
qed

lemma lowerhex_imp_plain: "lowerhex s \<Longrightarrow> plain s"
  by (simp add: lowerhex_def plain_def list_all_iff)

lemma filter_lowerhex: "lowerhex s \<Longrightarrow> filter (\<lambda>x. x \<noteq> CHR ''-'') s = s"
  by (induction s) (auto simp: lowerhex_def dest: lowerhex_plain)

lemma UUID_hex_fmt: "UUID_hex (fmt_32x (unat u)) = Inr u"
proof -
  have b: "unat u < 2 ^ 128" using unsigned_less [of u] by simp
  have i: "uint u < 2 ^ 128" using uint_lt2p [of u] by simp
  have "lowerhex (fmt_32x (unat u))" by (rule lowerhex_fmt_32x)
  then show ?thesis
    using b i
    by (simp add: UUID_hex_plain lowerhex_imp_plain filter_lowerhex length_fmt_32x int_16_fmt_32x)
qed

lemma lowerhex_take: "lowerhex s \<Longrightarrow> lowerhex (take n s)"
  by (auto simp: lowerhex_def list_all_iff dest: in_set_takeD)

lemma lowerhex_drop: "lowerhex s \<Longrightarrow> lowerhex (drop n s)"
  by (auto simp: lowerhex_def list_all_iff dest: in_set_dropD)

lemma plain_append [simp]: "plain (a @ b) = (plain a \<and> plain b)"
  by (simp add: plain_def)

lemma plain_dash [simp]: "plain (CHR ''-'' # s) = plain s"
  by (simp add: plain_def)

lemma plain_UUID_str: "plain (UUID_str u)"
  using lowerhex_fmt_32x [of "unat u"]
  by (simp add: UUID_str_def Let_def lowerhex_imp_plain lowerhex_take lowerhex_drop)

lemma undash_UUID_str: "filter (\<lambda>x. x \<noteq> CHR ''-'') (UUID_str u) = fmt_32x (unat u)"
proof -
  define h where "h = fmt_32x (unat u)"
  have l: "lowerhex h" unfolding h_def by (rule lowerhex_fmt_32x)
  have "take 8 h @ take 4 (drop 8 h) @ take 4 (drop 12 h) @ take 4 (drop 16 h) @ drop 20 h = h"
  proof -
    have a: "take 4 (drop 16 h) @ drop 20 h = drop 16 h"
      using append_take_drop_id [of 4 "drop 16 h"] by simp
    have b: "take 4 (drop 12 h) @ drop 16 h = drop 12 h"
      using append_take_drop_id [of 4 "drop 12 h"] by simp
    have c: "take 4 (drop 8 h) @ drop 12 h = drop 8 h"
      using append_take_drop_id [of 4 "drop 8 h"] by simp
    show ?thesis by (simp only: a b c append_take_drop_id)
  qed
  then show ?thesis
    using l unfolding UUID_str_def Let_def h_def [symmetric]
    by (simp add: filter_lowerhex lowerhex_take lowerhex_drop)
qed

lemma UUID_hex_str: "UUID_hex (UUID_str u) = Inr u"
proof -
  have b: "unat u < 2 ^ 128" using unsigned_less [of u] by simp
  have i: "uint u < 2 ^ 128" using uint_lt2p [of u] by simp
  show ?thesis using b i
    by (simp add: UUID_hex_plain plain_UUID_str undash_UUID_str length_fmt_32x int_16_fmt_32x)
qed

section \<open>The GUID codec\<close>

lemma undashed_lower_eq: "undashed_lower u = canonical_lowercase_hex u"
  by (simp add: undashed_lower_def canonical_lowercase_hex_def str_replace_char
      undash_UUID_str str_lower_plain lowerhex_imp_plain lowerhex_fmt_32x)

lemma UUID_hex_canonical: "UUID_hex (canonical_lowercase_hex u) = Inr u"
  by (simp add: canonical_lowercase_hex_def UUID_hex_fmt)

lemma str_lower_canonical: "str_lower (canonical_lowercase_hex u) = canonical_lowercase_hex u"
  by (simp add: canonical_lowercase_hex_def str_lower_plain lowerhex_imp_plain lowerhex_fmt_32x)

lemma str_lower_UUID_str: "str_lower (UUID_str u) = UUID_str u"
  by (simp add: str_lower_plain plain_UUID_str)

lemma GUID_round_trip_string:
  assumes "UUID_hex s = Inr u" and "UUID_hex (str_lower s) = Inr u"
  shows "GUID_round_trip (Some (GStr s)) dialect = Inr (Some (canonical_lowercase_hex u))"
  using assms
  by (simp add: GUID_round_trip_def GUID_process_bind_param_def GUID_process_result_value_def
      UUID_of_value_def UUID_of_db_def UUID_of_db_bytes_def guid_str_def UUID_of_bytes_bytes
      undashed_lower_eq UUID_hex_canonical canonical_lowercase_hex_def [symmetric])

text \<open>
  A \<open>uuid.UUID\<close> object makes the same round trip where the binding branch takes it:
  on postgresql, through \<open>str\<close>, and on the generic branch, through \<open>isinstance\<close>.
\<close>

lemma GUID_round_trip_object:
  "name dialect \<noteq> ''oracle'' \<Longrightarrow> name dialect \<noteq> ''mysql'' \<Longrightarrow>
   GUID_round_trip (Some (GUUID u)) dialect = Inr (Some (canonical_lowercase_hex u))"
  by (simp add: GUID_round_trip_def GUID_process_bind_param_def GUID_process_result_value_def
      UUID_of_value_def UUID_of_db_def guid_str_def str_lower_UUID_str UUID_hex_str
      undashed_lower_eq UUID_hex_canonical canonical_lowercase_hex_def [symmetric])

lemma GUID_round_trip_object_binary:
  "name dialect = ''oracle'' \<or> name dialect = ''mysql'' \<Longrightarrow>
   GUID_round_trip (Some (GUUID u)) dialect = Inl AttributeError"
  by (auto simp: GUID_round_trip_def GUID_process_bind_param_def UUID_of_value_def)

text \<open>
  Claim C1 says that for every valid identifier and every backend, decoding the encoding
  yields the canonical 32-digit lowercase string, the same on all backends. The theorem
  is what the code does for each way an identifier reaches \<open>process_bind_param\<close>. Given as
  a string, canonical or dashed, the identifier makes the round trip on every dialect
  (the three named ones and any other name, which is the generic branch). Given as a
  \<open>uuid.UUID\<close> object it makes the round trip on postgresql and on the generic branch,
  and on oracle and mysql the binding raises \<open>AttributeError\<close>, so nothing is stored
  and nothing decoded: for \<open>uuid.UUID('550e8400-e29b-41d4-a716-446655440000')\<close> the
  round trip on oracle, and on mysql, is that error. The canonical string has 32
  characters, each a lowercase hexadecimal digit, and \<open>uuid.UUID\<close> reads it as \<open>u\<close>.
\<close>

theorem GUID_round_trip_every_shape:
  "GUID_round_trip (Some (GStr (canonical_lowercase_hex u))) dialect
     = Inr (Some (canonical_lowercase_hex u))
   \<and> GUID_round_trip (Some (GStr (UUID_str u))) dialect = Inr (Some (canonical_lowercase_hex u))
   \<and> GUID_round_trip (Some (GUUID u)) dialect =
       (if name dialect = ''oracle'' \<or> name dialect = ''mysql'' then Inl AttributeError
        else Inr (Some (canonical_lowercase_hex u)))
   \<and> GUID_round_trip (Some (GUUID 0x550e8400e29b41d4a716446655440000)) \<lparr>name = ''oracle''\<rparr>
       = Inl AttributeError
   \<and> GUID_round_trip (Some (GUUID 0x550e8400e29b41d4a716446655440000)) \<lparr>name = ''mysql''\<rparr>
       = Inl AttributeError
   \<and> length (canonical_lowercase_hex u) = 32
   \<and> lowerhex (canonical_lowercase_hex u)
   \<and> UUID_hex (canonical_lowercase_hex u) = Inr u"
proof -
  have b: "unat u < 2 ^ 128" using unsigned_less [of u] by simp
  have 1: "GUID_round_trip (Some (GStr (canonical_lowercase_hex u))) dialect
     = Inr (Some (canonical_lowercase_hex u))"
    by (rule GUID_round_trip_string) (simp_all add: str_lower_canonical UUID_hex_canonical)
  have 2: "GUID_round_trip (Some (GStr (UUID_str u))) dialect = Inr (Some (canonical_lowercase_hex u))"
    by (rule GUID_round_trip_string) (simp_all add: str_lower_UUID_str UUID_hex_str)
  have 3: "GUID_round_trip (Some (GUUID u)) dialect =
       (if name dialect = ''oracle'' \<or> name dialect = ''mysql'' then Inl AttributeError
        else Inr (Some (canonical_lowercase_hex u)))"
  proof (cases "name dialect = ''oracle'' \<or> name dialect = ''mysql''")
    case True
    then show ?thesis by (simp add: GUID_round_trip_object_binary)
  next
    case False
    then show ?thesis by (simp add: GUID_round_trip_object)
  qed
  have 4: "GUID_round_trip (Some (GUUID 0x550e8400e29b41d4a716446655440000)) \<lparr>name = ''oracle''\<rparr>
       = Inl AttributeError"
    by (rule GUID_round_trip_object_binary) simp
  have 5: "GUID_round_trip (Some (GUUID 0x550e8400e29b41d4a716446655440000)) \<lparr>name = ''mysql''\<rparr>
       = Inl AttributeError"
    by (rule GUID_round_trip_object_binary) simp
  have 6: "length (canonical_lowercase_hex u) = 32"
    using b by (simp add: canonical_lowercase_hex_def length_fmt_32x)
  have 7: "lowerhex (canonical_lowercase_hex u)"
    by (simp add: canonical_lowercase_hex_def lowerhex_fmt_32x)
  have 8: "UUID_hex (canonical_lowercase_hex u) = Inr u"
    by (rule UUID_hex_canonical)
  from 1 2 3 4 5 6 7 8 show ?thesis by blast
qed

text \<open>
  The spec's example: the identifier \<open>550e8400e29b41d4a716446655440000\<close> is bound on
  oracle as the 16 bytes \<open>55 0E 84 00 E2 9B 41 D4 A7 16 44 66 55 44 00 00\<close>, and on oracle
  and on postgresql it is read back as the same string.
\<close>

lemma example_int:
  "unat (0x550e8400e29b41d4a716446655440000 :: 128 word) = 0x550e8400e29b41d4a716446655440000"
  by (simp add: unat_numeral del: unsigned_numeral)

lemma example_canonical:
  "canonical_lowercase_hex 0x550e8400e29b41d4a716446655440000 = ''550e8400e29b41d4a716446655440000''"
  unfolding canonical_lowercase_hex_def example_int
  by (simp add: fmt_32x_def hex_of_nat.simps hexdigit_def)

lemma example_bytes:
  "UUID_bytes 0x550e8400e29b41d4a716446655440000
     = [0x55, 0x0E, 0x84, 0x00, 0xE2, 0x9B, 0x41, 0xD4, 0xA7, 0x16, 0x44, 0x66, 0x55, 0x44, 0x00, 0x00]"
proof (rule UUID_bytes_of_bytes)
  have "from_bytes [0x55, 0x0E, 0x84, 0x00, 0xE2, 0x9B, 0x41, 0xD4, 0xA7, 0x16, 0x44, 0x66, 0x55, 0x44, 0x00, 0x00]
    = 0x550e8400e29b41d4a716446655440000"
    by (simp add: from_bytes_def)
  then show "UUID_of_bytes [0x55, 0x0E, 0x84, 0x00, 0xE2, 0x9B, 0x41, 0xD4, 0xA7, 0x16, 0x44, 0x66, 0x55, 0x44, 0x00, 0x00]
    = Inr 0x550e8400e29b41d4a716446655440000"
    by (simp add: UUID_of_bytes_def)
qed

lemma example_scenario:
  "GUID_process_bind_param (Some (GStr ''550e8400e29b41d4a716446655440000'')) \<lparr>name = ''oracle''\<rparr>
     = Inr (Some (DBytes [0x55, 0x0E, 0x84, 0x00, 0xE2, 0x9B, 0x41, 0xD4, 0xA7, 0x16, 0x44, 0x66, 0x55, 0x44, 0x00, 0x00]))
   \<and> GUID_round_trip (Some (GStr ''550e8400e29b41d4a716446655440000'')) \<lparr>name = ''oracle''\<rparr>
     = Inr (Some ''550e8400e29b41d4a716446655440000'')
   \<and> GUID_round_trip (Some (GStr ''550e8400e29b41d4a716446655440000'')) \<lparr>name = ''postgresql''\<rparr>
     = Inr (Some ''550e8400e29b41d4a716446655440000'')"
proof -
  have h: "UUID_hex ''550e8400e29b41d4a716446655440000'' = Inr 0x550e8400e29b41d4a716446655440000"
    using UUID_hex_canonical [of "0x550e8400e29b41d4a716446655440000"]
    by (simp only: example_canonical)
  have 1: "GUID_process_bind_param (Some (GStr ''550e8400e29b41d4a716446655440000'')) \<lparr>name = ''oracle''\<rparr>
     = Inr (Some (DBytes [0x55, 0x0E, 0x84, 0x00, 0xE2, 0x9B, 0x41, 0xD4, 0xA7, 0x16, 0x44, 0x66, 0x55, 0x44, 0x00, 0x00]))"
    by (simp add: GUID_process_bind_param_def UUID_of_value_def h example_bytes)
  have 2: "GUID_round_trip (Some (GStr ''550e8400e29b41d4a716446655440000'')) d
     = Inr (Some ''550e8400e29b41d4a716446655440000'')" for d
    using GUID_round_trip_string [of "''550e8400e29b41d4a716446655440000''" "0x550e8400e29b41d4a716446655440000" d]
      str_lower_canonical [of "0x550e8400e29b41d4a716446655440000"] h
    by (simp only: example_canonical)
  from 1 2 show ?thesis by blast
qed

text \<open>
  Binding alone: a canonical string is bound without an error on every dialect, and a
  \<open>uuid.UUID\<close> object on postgresql and on the generic branch.
\<close>

lemma GUID_bind_string_accepted:
  "\<exists>stored. GUID_process_bind_param (Some (GStr (canonical_lowercase_hex u))) dialect
      = Inr (Some stored)"
  by (simp add: GUID_process_bind_param_def UUID_of_value_def UUID_hex_canonical)

lemma GUID_bind_object_text_backends:
  "name dialect \<noteq> ''oracle'' \<Longrightarrow> name dialect \<noteq> ''mysql'' \<Longrightarrow>
   \<exists>stored. GUID_process_bind_param (Some (GUUID u)) dialect = Inr (Some stored)"
  by (simp add: GUID_process_bind_param_def)

text \<open>
  Claim C2 says that binding takes a string and a \<open>uuid.UUID\<close> object alike on every
  dialect. The two lemmas above are the part the code does. On the oracle and mysql
  branches \<open>process_bind_param\<close> passes the value to \<open>uuid.UUID(value)\<close> without the
  \<open>isinstance\<close> test of the generic branch, and for the object
  \<open>uuid.UUID('550e8400-e29b-41d4-a716-446655440000')\<close> the call raises
  \<open>AttributeError\<close>.
\<close>

theorem GUID_bind_object_binary_backends:
  "GUID_process_bind_param (Some (GUUID 0x550e8400e29b41d4a716446655440000)) \<lparr>name = ''oracle''\<rparr>
     = Inl AttributeError
   \<and> GUID_process_bind_param (Some (GUUID 0x550e8400e29b41d4a716446655440000)) \<lparr>name = ''mysql''\<rparr>
     = Inl AttributeError"
  by (simp add: GUID_process_bind_param_def UUID_of_value_def)

section \<open>Column shapes\<close>

text \<open>
  \<open>BooleanString\<close>, \<open>InternalAccountString\<close> and \<open>InternalScopeString\<close> name their
  method \<open>load_dialect_imp\<close>. SQLAlchemy looks up \<open>load_dialect_impl\<close>, the name
  \<open>GUID\<close> and \<open>JSON\<close> use, so for these three classes it finds the inherited method
  and the column is \<open>String\<close> with the length the decorator was constructed with. The
  misnamed methods themselves answer \<open>String(255)\<close> for every dialect.
\<close>

lemma dialect_impl_misnamed_hook:
  "cls = BooleanString \<or> cls = InternalAccountString \<or> cls = InternalScopeString \<Longrightarrow>
   dialect_impl cls len dialect = SA_String len"
  by (auto simp: dialect_impl_def)

lemma load_dialect_imp_255:
  "BooleanString_load_dialect_imp dialect = SA_String (Some 255)
   \<and> InternalAccountString_load_dialect_imp dialect = SA_String (Some 255)
   \<and> InternalScopeString_load_dialect_imp dialect = SA_String (Some 255)"
  by (simp add: BooleanString_load_dialect_imp_def InternalAccountString_load_dialect_imp_def
      InternalScopeString_load_dialect_imp_def type_descriptor_def)

text \<open>
  Claim C3 says that the column of these three codecs is \<open>String(255)\<close> on every
  backend. On postgresql, the column type SQLAlchemy gets for \<open>BooleanString()\<close>
  is \<open>String()\<close>, with no length, and for \<open>InternalAccountString(25)\<close> and
  \<open>InternalScopeString(25)\<close> it is \<open>String(25)\<close>, while the method the class
  defines answers \<open>String(255)\<close>: the method is never the one that is called.
\<close>

theorem dialect_impl_ignores_load_dialect_imp:
  "dialect_impl BooleanString None \<lparr>name = ''postgresql''\<rparr> = SA_String None
   \<and> dialect_impl InternalAccountString (Some 25) \<lparr>name = ''postgresql''\<rparr> = SA_String (Some 25)
   \<and> dialect_impl InternalScopeString (Some 25) \<lparr>name = ''postgresql''\<rparr> = SA_String (Some 25)
   \<and> BooleanString_load_dialect_imp \<lparr>name = ''postgresql''\<rparr> = SA_String (Some 255)"
  by (simp add: dialect_impl_def BooleanString_load_dialect_imp_def type_descriptor_def)

section \<open>The identity codecs\<close>

text \<open>
  Claim C4. For every dialect, binding a bare string to either identity codec raises
  \<open>InvalidType\<close>, whatever the string; binding a typed wrapper stores the wrapper's
  \<open>internal\<close> string.
\<close>

theorem identity_bind_param_InvalidType:
  "InternalAccountString_process_bind_param (Some (IStr s)) dialect = Inl InvalidType
   \<and> InternalScopeString_process_bind_param (Some (IStr s)) dialect = Inl InvalidType
   \<and> InternalAccountString_process_bind_param (Some (IAccount a)) dialect = Inr (Some (internal a))
   \<and> InternalScopeString_process_bind_param (Some (IScope a)) dialect = Inr (Some (internal a))"
  by (simp add: InternalAccountString_process_bind_param_def
      InternalScopeString_process_bind_param_def)

text \<open>
  Claim C5. For every stored string \<open>s\<close>, every dialect and every resolver, decoding
  \<open>s\<close> with either identity codec answers the wrapper whose internal name is \<open>s\<close>
  itself, and the list of calls made to the resolver is the one before the decoding: the
  wrapper is built with \<open>from_external=False\<close> and the resolution step is not invoked.
\<close>

theorem identity_result_value_no_resolution:
  "InternalAccountString_process_result_value resolve (Some s) dialect calls
     = (Some (IAccount \<lparr>internal = s\<rparr>), calls)
   \<and> InternalScopeString_process_result_value resolve (Some s) dialect calls
     = (Some (IScope \<lparr>internal = s\<rparr>), calls)"
  by (simp add: InternalAccountString_process_result_value_def
      InternalScopeString_process_result_value_def InternalAccount_def InternalScope_def
      InternalType_init_def)

section \<open>The BooleanString codec\<close>

text \<open>
  Claim C6. For every string \<open>s\<close> whose lowercase form is neither \<open>true\<close> nor
  \<open>false\<close>, and every dialect, decoding what binding \<open>s\<close> stored answers \<open>s\<close>.
\<close>

theorem BooleanString_passthrough:
  assumes "str_lower s \<noteq> ''true''" and "str_lower s \<noteq> ''false''"
  shows "BooleanString_process_result_value
           (BooleanString_process_bind_param (Some (BStr s)) dialect) dialect = Some (BStr s)"
  using assms
  by (simp add: BooleanString_process_result_value_def BooleanString_process_bind_param_def
      bool_value_str_def)

text \<open>The string \<open>maybe\<close> on oracle is such a string.\<close>

theorem BooleanString_passthrough_witness:
  "str_lower ''maybe'' \<noteq> ''true'' \<and> str_lower ''maybe'' \<noteq> ''false''
   \<and> BooleanString_process_result_value
        (BooleanString_process_bind_param (Some (BStr ''maybe'')) \<lparr>name = ''oracle''\<rparr>)
        \<lparr>name = ''oracle''\<rparr> = Some (BStr ''maybe'')"
proof -
  have t: "str_lower ''maybe'' \<noteq> ''true''" and f: "str_lower ''maybe'' \<noteq> ''false''"
    by code_simp+
  from BooleanString_passthrough [OF t f, of "\<lparr>name = ''oracle''\<rparr>"] t f
  show ?thesis by simp
qed

section \<open>None\<close>

text \<open>
  Claim C7 says that every codec, the structured-document codec among them, encodes
  \<open>None\<close> as \<open>None\<close> on every backend. The \<open>JSON\<close> class defines no encoding of its
  own: on postgresql its column type is \<open>JSONB()\<close>, which binds \<open>None\<close> as the JSON
  text \<open>null\<close>, not as \<open>None\<close>.
\<close>

theorem JSON_bind_None_serialized:
  "JSON_bind (None :: string option) \<lparr>name = ''postgresql''\<rparr> = Serialized None
   \<and> JSON_bind (None :: string option) \<lparr>name = ''postgresql''\<rparr> \<noteq> Unchanged None"
  by (simp add: JSON_bind_def bind_processor_def dialect_impl_def JSON_load_dialect_impl_def
      type_descriptor_def)

text \<open>
  Claim C7, amended. For the four codecs that define \<open>process_bind_param\<close> and
  \<open>process_result_value\<close> (GUID, BooleanString, InternalAccountString and
  InternalScopeString) and every dialect, encoding \<open>None\<close> answers \<open>None\<close> and
  decoding \<open>None\<close> answers \<open>None\<close>, without an error (the bare-string check of the
  identity codecs included) and, for the identity codecs, without a call to the resolver.
  The \<open>JSON\<close> class defines neither method: \<open>None\<close> bound to it is handed to the
  column type, which stores the JSON text \<open>null\<close> on postgresql and mysql and \<open>None\<close>
  under every other dialect; \<open>None\<close> read from it is \<open>None\<close> under every dialect.
\<close>

theorem None_short_circuits:
  "GUID_process_bind_param None dialect = Inr None
   \<and> GUID_process_result_value None dialect = Inr None
   \<and> BooleanString_process_bind_param None dialect = None
   \<and> BooleanString_process_result_value None dialect = None
   \<and> InternalAccountString_process_bind_param None dialect = Inr None
   \<and> InternalAccountString_process_result_value resolve None dialect calls = (None, calls)
   \<and> InternalScopeString_process_bind_param None dialect = Inr None
   \<and> InternalScopeString_process_result_value resolve None dialect calls = (None, calls)
   \<and> ''process_bind_param'' \<notin> set (class_defines JSON)
   \<and> ''process_result_value'' \<notin> set (class_defines JSON)
   \<and> JSON_bind None dialect =
       (if name dialect = ''postgresql'' \<or> name dialect = ''mysql'' then Serialized None
        else Unchanged None)
   \<and> JSON_result None dialect = None"
proof -
  have codecs:
    "GUID_process_bind_param None dialect = Inr None"
    "GUID_process_result_value None dialect = Inr None"
    "BooleanString_process_bind_param None dialect = None"
    "BooleanString_process_result_value None dialect = None"
    "InternalAccountString_process_bind_param None dialect = Inr None"
    "InternalAccountString_process_result_value resolve None dialect calls = (None, calls)"
    "InternalScopeString_process_bind_param None dialect = Inr None"
    "InternalScopeString_process_result_value resolve None dialect calls = (None, calls)"
    by (simp_all add: GUID_process_bind_param_def GUID_process_result_value_def
        BooleanString_process_bind_param_def BooleanString_process_result_value_def
        InternalAccountString_process_bind_param_def
        InternalAccountString_process_result_value_def
        InternalScopeString_process_bind_param_def
        InternalScopeString_process_result_value_def)
  have hooks:
    "''process_bind_param'' \<notin> set (class_defines JSON)"
    "''process_result_value'' \<notin> set (class_defines JSON)"
    by simp_all
  have bind: "JSON_bind None dialect =
       (if name dialect = ''postgresql'' \<or> name dialect = ''mysql'' then Serialized None
        else Unchanged None)"
    by (simp add: JSON_bind_def bind_processor_def dialect_impl_def JSON_load_dialect_impl_def
        type_descriptor_def)
  have result: "JSON_result None dialect = None"
    by (simp add: JSON_result_def result_processor_def)
  from codecs hooks bind result show ?thesis by simp
qed

text \<open>
  Claim C8. For every dialect, BooleanString binds \<open>True\<close> as the text \<open>true\<close> and
  \<open>False\<close> as \<open>false\<close>; a string whose lowercase form is \<open>true\<close> (or \<open>false\<close>) is
  bound as \<open>true\<close> (or \<open>false\<close>), and such a stored text is decoded as the boolean
  \<open>True\<close> (or \<open>False\<close>).
\<close>

theorem BooleanString_true_false:
  "BooleanString_process_bind_param (Some (BBool True)) dialect = Some ''true''
   \<and> BooleanString_process_bind_param (Some (BBool False)) dialect = Some ''false''
   \<and> (str_lower s = ''true'' \<longrightarrow>
        BooleanString_process_bind_param (Some (BStr s)) dialect = Some ''true''
        \<and> BooleanString_process_result_value (Some s) dialect = Some (BBool True))
   \<and> (str_lower s = ''false'' \<longrightarrow>
        BooleanString_process_bind_param (Some (BStr s)) dialect = Some ''false''
        \<and> BooleanString_process_result_value (Some s) dialect = Some (BBool False))"
  by (simp add: BooleanString_process_bind_param_def BooleanString_process_result_value_def)

text \<open>The strings \<open>TRUE\<close> and \<open>False\<close> on mysql.\<close>

theorem BooleanString_true_false_witness:
  "str_lower ''TRUE'' = ''true'' \<and> str_lower ''False'' = ''false''
   \<and> BooleanString_process_bind_param (Some (BStr ''TRUE'')) \<lparr>name = ''mysql''\<rparr> = Some ''true''
   \<and> BooleanString_process_result_value (Some ''TRUE'') \<lparr>name = ''mysql''\<rparr> = Some (BBool True)
   \<and> BooleanString_process_bind_param (Some (BStr ''False'')) \<lparr>name = ''mysql''\<rparr> = Some ''false''
   \<and> BooleanString_process_result_value (Some ''False'') \<lparr>name = ''mysql''\<rparr> = Some (BBool False)"
proof -
  have t: "str_lower ''TRUE'' = ''true''" and f: "str_lower ''False'' = ''false''"
    by code_simp+
  from BooleanString_true_false [of "\<lparr>name = ''mysql''\<rparr>" "''TRUE''"]
       BooleanString_true_false [of "\<lparr>name = ''mysql''\<rparr>" "''False''"] t f
  show ?thesis by simp
qed

section \<open>Comparisons\<close>

text \<open>
  Claim C9. For both identity codecs, \<open>coerce_compared_value\<close> answers the plain
  \<open>String()\<close> type when the operator is \<open>like_op\<close> or \<open>notlike_op\<close>, and the decorator
  itself for every other operator.
\<close>

theorem coerce_compared_value_like:
  "(opr = like_op \<or> opr = notlike_op \<longrightarrow>
      InternalAccountString_coerce_compared_value self opr v = Plain (SA_String None)
      \<and> InternalScopeString_coerce_compared_value self opr v = Plain (SA_String None))
   \<and> (opr \<noteq> like_op \<and> opr \<noteq> notlike_op \<longrightarrow>
      InternalAccountString_coerce_compared_value self opr v = self
      \<and> InternalScopeString_coerce_compared_value self opr v = self)"
  by (simp add: InternalAccountString_coerce_compared_value_def
      InternalScopeString_coerce_compared_value_def)

text \<open>
  The four cases at concrete operators: \<open>like_op\<close> and \<open>notlike_op\<close> answer the plain
  type, \<open>eq\<close> and \<open>ilike_op\<close> the decorator.
\<close>

theorem coerce_compared_value_like_witness:
  "InternalAccountString_coerce_compared_value (Decorator InternalAccountString (Some 25))
      like_op ''jdoe%'' = Plain (SA_String None)
   \<and> InternalScopeString_coerce_compared_value (Decorator InternalScopeString (Some 25))
      notlike_op ''user.%'' = Plain (SA_String None)
   \<and> InternalAccountString_coerce_compared_value (Decorator InternalAccountString (Some 25))
      eq ''jdoe'' = Decorator InternalAccountString (Some 25)
   \<and> InternalScopeString_coerce_compared_value (Decorator InternalScopeString (Some 25))
      ilike_op ''user.%'' = Decorator InternalScopeString (Some 25)"
  using coerce_compared_value_like [of like_op "Decorator InternalAccountString (Some 25)" "''jdoe%''"]
    coerce_compared_value_like [of notlike_op "Decorator InternalScopeString (Some 25)" "''user.%''"]
    coerce_compared_value_like [of eq "Decorator InternalAccountString (Some 25)" "''jdoe''"]
    coerce_compared_value_like [of ilike_op "Decorator InternalScopeString (Some 25)" "''user.%''"]
  by simp

section \<open>Listing distances\<close>

text \<open>
  Claim C10. For every value of \<open>filter_\<close>, \<open>list_distances\<close> answers what it answers
  with no filter: \<open>to_dict\<close> of every row of the table, in the table's order.
\<close>

theorem list_distances_ignores_filter:
  "list_distances to_dict filter_arg session = list_distances to_dict None session
   \<and> list_distances to_dict filter_arg session = map to_dict session"
  by (simp add: list_distances_def select_Distance_def execute_scalars_all_def Let_def)

end
